theory Spec2Isabelle
  imports Complex_Main
begin

section \<open>The audio graph\<close>

text \<open>
  Audio nodes are objects; the model names the nodes the constructor of \<open>AudioSystem\<close>
  creates once (lines 125-156 of \<open>audio-system.js\<close>) by the field that holds them, and numbers
  the nodes that are created later by an allocation counter, which stands for object identity.
\<close>

type_synonym media_stream = nat
type_synonym stream_id = string

datatype node =
    Destination                 \<comment> \<open>\<open>APP.audioCtx.destination\<close>\<close>
  | DestinationGain             \<comment> \<open>\<open>this.destinationGain\<close>, the final mix node\<close>
  | AudioDestination            \<comment> \<open>\<open>this.audioDestination\<close>, stream destination for media elements\<close>
  | MediaStreamDestinationNode  \<comment> \<open>\<open>this.mediaStreamDestinationNode\<close>\<close>
  | OutboundGainNode            \<comment> \<open>\<open>this.outboundGainNode\<close>\<close>
  | OutboundAnalyser            \<comment> \<open>\<open>this.outboundAnalyser\<close>\<close>
  | MixerAnalyser               \<comment> \<open>\<open>this.mixerAnalyser\<close>\<close>
  | AvatarGain                  \<comment> \<open>\<open>this.mixer[SourceType.AVATAR_AUDIO_SOURCE]\<close>\<close>
  | MediaGain                   \<comment> \<open>\<open>this.mediaGain\<close>\<close>
  | SfxGain                     \<comment> \<open>\<open>this.mixer[SourceType.SFX]\<close>\<close>
  | MediaStreamSource nat media_stream  \<comment> \<open>\<open>createMediaStreamSource(mediaStream)\<close>\<close>
  | Gain nat                    \<comment> \<open>\<open>createGain()\<close> after construction\<close>
  | LoopbackDestination nat     \<comment> \<open>\<open>createMediaStreamDestination()\<close> of a loopback session\<close>
  | Producer nat                \<comment> \<open>a node handed in by a caller of \<open>addAudio\<close>\<close>

type_synonym graph = "(node \<times> node) set"

datatype graph_op = OpDisconnect node | OpConnect node node

text \<open>\<open>a.connect(b)\<close> adds one connection (connecting twice is the same connection);
  \<open>a.disconnect()\<close> removes every outgoing connection of \<open>a\<close>.\<close>

definition connect :: "node \<Rightarrow> node \<Rightarrow> graph \<Rightarrow> graph" where
  "connect a b E = insert (a, b) E"

definition disconnect :: "node \<Rightarrow> graph \<Rightarrow> graph" where
  "disconnect a E = {e \<in> E. fst e \<noteq> a}"

definition outputs :: "graph \<Rightarrow> node \<Rightarrow> node set" where
  "outputs E a = {b. (a, b) \<in> E}"

definition inputs :: "graph \<Rightarrow> node \<Rightarrow> node set" where
  "inputs E b = {a. (a, b) \<in> E}"

section \<open>The state of \<open>AudioSystem\<close>\<close>

datatype source_type =
    AVATAR_AUDIO_SOURCE
  | MEDIA_VIDEO
  | AUDIO_TARGET
  | SFX
  | Unlisted string   \<comment> \<open>any value that is not one of the four keys of \<open>this.mixer\<close>\<close>

datatype param_event =
    SetTargetAtTime real real real   \<comment> \<open>target, startTime, timeConstant\<close>
  | SetValue real                    \<comment> \<open>a direct write of \<open>gain.value\<close>\<close>

datatype audio_type = PannerNode | Stereo

type_synonym src_key = nat

record audio =
  isPositionalAudio :: bool

datatype emitter_call =
    SwapAudioType src_key
  | UpdatePannerNode src_key
  | UpdateAudioSettings src_key

record audio_el =
  el_id :: nat
  sinkId :: string
  srcObject :: "node option"
  paused :: bool

datatype js_error = TypeError

datatype outcome = Fulfilled | Rejected

text \<open>What \<open>updatePrefs\<close> reads from outside the class: the preference store, the
  media-devices manager, the audio clock, the constant \<open>GAIN_TIME_CONST\<close> of
  \<open>components/audio-params\<close> and the emitter system's functions. None of them is defined in
  \<open>audio-system.js\<close>, so they are parameters. JavaScript numbers are modelled as reals
  (rounding is not modelled). \<open>swapAudioType k a\<close> is the audio object that
  \<open>APP.audios.get(k)\<close> returns after \<open>swapAudioType(k)\<close> when it returned \<open>a\<close> before.\<close>

record preferences =
  globalVoiceVolume :: real
  globalMediaVolume :: real
  globalSFXVolume :: real
  disableLeftRightPanning :: bool
  audioPanningQuality :: string

record media_devices =
  selectedSpeakersDeviceId :: string
  defaultOutputDeviceId :: string

record app =
  preferences :: preferences
  isAudioOutputSelectEnabled :: bool
  mediaDevicesManager :: "media_devices option"
  currentTime :: real
  GAIN_TIME_CONST :: real
  getCurrentAudioSettings :: "src_key \<Rightarrow> audio_type"
  swapAudioType :: "src_key \<Rightarrow> audio \<Rightarrow> audio"

record audio_system =
  edges :: graph
  graph_ops :: "graph_op list"
  next_node :: nat
  audioNodes :: "stream_id \<rightharpoonup> node \<times> node"
  automation :: "(node \<times> param_event) list"
  outputMediaAudio :: "audio_el option"
  next_element :: nat
  sink_requests :: "(nat \<times> string) list"
  unhandled_rejections :: nat
  this_disableLeftRightPanning :: bool
  this_audioPanningQuality :: string
  audios :: "(src_key \<times> audio) list"
  emitter_calls :: "emitter_call list"

definition do_connect :: "node \<Rightarrow> node \<Rightarrow> audio_system \<Rightarrow> audio_system" where
  "do_connect a b s =
     s\<lparr>edges := connect a b (edges s), graph_ops := graph_ops s @ [OpConnect a b]\<rparr>"

definition do_disconnect :: "node \<Rightarrow> audio_system \<Rightarrow> audio_system" where
  "do_disconnect a s =
     s\<lparr>edges := disconnect a (edges s), graph_ops := graph_ops s @ [OpDisconnect a]\<rparr>"

text \<open>The object literal \<open>this.mixer\<close> (lines 141-146): four keys, two of them holding the
  same gain node. A lookup with any other key gives no audio node.\<close>

fun mixer :: "source_type \<Rightarrow> node option" where
  "mixer AVATAR_AUDIO_SOURCE = Some AvatarGain"
| "mixer MEDIA_VIDEO = Some MediaGain"
| "mixer AUDIO_TARGET = Some MediaGain"
| "mixer SFX = Some SfxGain"
| "mixer (Unlisted k) = None"

text \<open>The constructor (lines 122-169); the two cached panning preferences are read from the
  store. \<open>this.outputMediaAudio\<close> is not assigned, so it is \<open>undefined\<close>.\<close>

definition AudioSystem :: "preferences \<Rightarrow> audio_system" where
  "AudioSystem prefs =
     \<lparr> edges = {(DestinationGain, Destination),
                (OutboundGainNode, OutboundAnalyser),
                (OutboundAnalyser, MediaStreamDestinationNode),
                (AvatarGain, DestinationGain), (MediaGain, DestinationGain),
                (SfxGain, DestinationGain),
                (AvatarGain, MixerAnalyser), (MediaGain, MixerAnalyser),
                (SfxGain, MixerAnalyser)},
       graph_ops = [],
       next_node = 0,
       audioNodes = Map.empty,
       automation = [],
       outputMediaAudio = None,
       next_element = 0,
       sink_requests = [],
       unhandled_rejections = 0,
       this_disableLeftRightPanning = disableLeftRightPanning prefs,
       this_audioPanningQuality = audioPanningQuality prefs,
       audios = [],
       emitter_calls = [] \<rparr>"

subsection \<open>Outbound aggregator\<close>

definition removeStreamFromOutboundAudio :: "stream_id \<Rightarrow> audio_system \<Rightarrow> audio_system" where
  "removeStreamFromOutboundAudio i s =
     (case audioNodes s i of
        None \<Rightarrow> s
      | Some (sourceNode, gainNode) \<Rightarrow>
          (let s1 = do_disconnect sourceNode s;
               s2 = do_disconnect gainNode s1
           in s2\<lparr>audioNodes := (audioNodes s2)(i := None)\<rparr>))"

definition addStreamToOutboundAudio ::
  "stream_id \<Rightarrow> media_stream \<Rightarrow> audio_system \<Rightarrow> audio_system" where
  "addStreamToOutboundAudio i mediaStream s =
     (let s0 = (if audioNodes s i \<noteq> None then removeStreamFromOutboundAudio i s else s);
          sourceNode = MediaStreamSource (next_node s0) mediaStream;
          gainNode = Gain (Suc (next_node s0));
          s1 = s0\<lparr>next_node := next_node s0 + 2\<rparr>;
          s2 = do_connect sourceNode gainNode s1;
          s3 = do_connect gainNode OutboundGainNode s2
      in s3\<lparr>audioNodes := (audioNodes s3)(i \<mapsto> (sourceNode, gainNode))\<rparr>)"

text \<open>Nodes created after construction carry a number below the allocation counter.\<close>

fun node_below :: "nat \<Rightarrow> node \<Rightarrow> bool" where
  "node_below n (MediaStreamSource k m) = (k < n)"
| "node_below n (Gain k) = (k < n)"
| "node_below n x = True"

definition fresh_ok :: "audio_system \<Rightarrow> bool" where
  "fresh_ok s = (\<forall>(a, b) \<in> edges s. node_below (next_node s) a \<and> node_below (next_node s) b)"

subsection \<open>Mixer graph\<close>

text \<open>\<open>addAudio\<close> (lines 196-199): \<open>node.disconnect()\<close> runs first; \<open>node.connect(x)\<close>
  throws a \<open>TypeError\<close> when \<open>x\<close> is not an audio node, and the disconnect stays done.\<close>

definition addAudio ::
  "node \<Rightarrow> source_type \<Rightarrow> audio_system \<Rightarrow> (js_error \<times> audio_system) + audio_system" where
  "addAudio n sourceType s =
     (let s1 = do_disconnect n s
      in case mixer sourceType of
           None \<Rightarrow> Inl (TypeError, s1)
         | Some g \<Rightarrow> Inr (do_connect n g s1))"

definition removeAudio :: "node \<Rightarrow> audio_system \<Rightarrow> audio_system" where
  "removeAudio n s = do_disconnect n s"

subsection \<open>Preference reactor: \<open>updatePrefs\<close>\<close>

text \<open>Lines 206-218: the three category gains. Every change of a gain goes through
  \<open>gain.setTargetAtTime\<close>.\<close>

definition setTargetAtTime ::
  "node \<Rightarrow> real \<Rightarrow> real \<Rightarrow> real \<Rightarrow> audio_system \<Rightarrow> audio_system" where
  "setTargetAtTime g target startTime timeConstant s =
     s\<lparr>automation := automation s @ [(g, SetTargetAtTime target startTime timeConstant)]\<rparr>"

definition updatePrefs_volumes :: "app \<Rightarrow> audio_system \<Rightarrow> audio_system" where
  "updatePrefs_volumes a s =
     (let s1 = setTargetAtTime MediaGain (globalMediaVolume (preferences a) / 100)
                 (currentTime a) (GAIN_TIME_CONST a) s;
          s2 = setTargetAtTime SfxGain (globalSFXVolume (preferences a) / 100)
                 (currentTime a) (GAIN_TIME_CONST a) s1
      in setTargetAtTime AvatarGain (globalVoiceVolume (preferences a) / 100)
           (currentTime a) (GAIN_TIME_CONST a) s2)"

text \<open>Lines 225-233: the three category nodes are moved to \<open>sink\<close> and tapped again.\<close>

definition reroute :: "node \<Rightarrow> audio_system \<Rightarrow> audio_system" where
  "reroute sink s =
     (let s1 = do_connect AvatarGain MixerAnalyser
                 (do_connect AvatarGain sink (do_disconnect AvatarGain s));
          s2 = do_connect MediaGain MixerAnalyser
                 (do_connect MediaGain sink (do_disconnect MediaGain s1))
      in do_connect SfxGain MixerAnalyser
           (do_connect SfxGain sink (do_disconnect SfxGain s2)))"

text \<open>\<open>new Audio()\<close> with \<open>srcObject = this.audioDestination.stream\<close>: a fresh element plays
  on the default device (\<open>sinkId\<close> is the empty string) and is paused.\<close>

definition new_output_element :: "nat \<Rightarrow> audio_el" where
  "new_output_element n =
     \<lparr> el_id = n, sinkId = [], srcObject = Some AudioDestination, paused = True \<rparr>"

text \<open>Lines 220-258. \<open>this.outputMediaAudio?.sinkId\<close> is \<open>undefined\<close> without an element,
  and a device id, a string, is never \<open>undefined\<close>. \<open>setSinkId\<close> returns a promise: the call is
  recorded in \<open>sink_requests\<close> and settles later, in \<open>settle_setSinkId\<close>.\<close>

definition updatePrefs_routing :: "app \<Rightarrow> audio_system \<Rightarrow> audio_system" where
  "updatePrefs_routing a s =
     (case mediaDevicesManager a of
        None \<Rightarrow> s
      | Some mdm \<Rightarrow>
          if \<not> isAudioOutputSelectEnabled a then s
          else
            (let sel = selectedSpeakersDeviceId mdm;
                 isDefault = (sel = defaultOutputDeviceId mdm)
             in if (outputMediaAudio s \<noteq> None \<or> \<not> isDefault)
                   \<and> Some sel \<noteq> map_option sinkId (outputMediaAudio s)
                then
                  (let s1 = reroute (if isDefault then DestinationGain else AudioDestination) s
                   in if isDefault then s1\<lparr>outputMediaAudio := None\<rparr>
                      else
                        (let (el, s2) =
                               (case outputMediaAudio s1 of
                                  None \<Rightarrow>
                                    (new_output_element (next_element s1),
                                     s1\<lparr>next_element := Suc (next_element s1)\<rparr>)
                                | Some e \<Rightarrow> (e, s1));
                             s3 = s2\<lparr>outputMediaAudio := Some el\<rparr>
                         in if sinkId el \<noteq> sel
                            then s3\<lparr>sink_requests := sink_requests s3 @ [(el_id el, sel)]\<rparr>
                            else s3))
                else s))"

text \<open>The promise of the oldest pending \<open>setSinkId\<close> settles (lines 252-254). Only a
  fulfilment handler is attached: on fulfilment the element has the new sink and the handler
  calls \<open>this.outputMediaAudio.play()\<close> on whatever element the field holds then (a
  \<open>TypeError\<close> inside the handler when it holds none); on rejection no handler of this file
  runs, and the rejection stays unhandled.\<close>

definition settle_setSinkId :: "outcome \<Rightarrow> audio_system \<Rightarrow> audio_system" where
  "settle_setSinkId r s =
     (case sink_requests s of
        [] \<Rightarrow> s
      | (eid, sid) # rest \<Rightarrow>
          (let s1 = s\<lparr>sink_requests := rest\<rparr>
           in case r of
                Rejected \<Rightarrow> s1\<lparr>unhandled_rejections := Suc (unhandled_rejections s1)\<rparr>
              | Fulfilled \<Rightarrow>
                  (case outputMediaAudio s1 of
                     None \<Rightarrow> s1\<lparr>unhandled_rejections := Suc (unhandled_rejections s1)\<rparr>
                   | Some el \<Rightarrow>
                       s1\<lparr>outputMediaAudio :=
                            Some ((if el_id el = eid then el\<lparr>sinkId := sid\<rparr> else el)
                                    \<lparr>paused := False\<rparr>)\<rparr>)))"

text \<open>Lines 260-287: the loop over \<open>APP.audios\<close>, one entry at a time. The result is the
  entry as it stands afterwards and the calls made to the emitter system for it.\<close>

definition panning_step ::
  "app \<Rightarrow> bool \<Rightarrow> bool \<Rightarrow> src_key \<times> audio \<Rightarrow> (src_key \<times> audio) \<times> emitter_call list" where
  "panning_step a shouldRecreateAudio shouldUpdateAudioSettings entry =
     (let k = fst entry; au = snd entry
      in if shouldRecreateAudio then
           (let audioType = getCurrentAudioSettings a k
            in if (\<not> isPositionalAudio au \<and> audioType = PannerNode)
                  \<or> (isPositionalAudio au \<and> audioType = Stereo)
               then
                 (let au' = swapAudioType a k au
                  in ((k, au'),
                      SwapAudioType k # (if isPositionalAudio au' then [UpdatePannerNode k] else [])))
               else (entry, []))
         else if shouldUpdateAudioSettings then (entry, [UpdateAudioSettings k])
         else (entry, []))"

definition updatePrefs_panning :: "app \<Rightarrow> audio_system \<Rightarrow> audio_system" where
  "updatePrefs_panning a s =
     (let newDisableLeftRightPanning = disableLeftRightPanning (preferences a);
          newAudioPanningQuality = audioPanningQuality (preferences a);
          shouldRecreateAudio = (this_disableLeftRightPanning s \<noteq> newDisableLeftRightPanning);
          shouldUpdateAudioSettings = (this_audioPanningQuality s \<noteq> newAudioPanningQuality);
          results = map (panning_step a shouldRecreateAudio shouldUpdateAudioSettings) (audios s)
      in s\<lparr>this_disableLeftRightPanning := newDisableLeftRightPanning,
           this_audioPanningQuality := newAudioPanningQuality,
           audios := map fst results,
           emitter_calls := emitter_calls s @ concat (map snd results)\<rparr>)"

definition updatePrefs :: "app \<Rightarrow> audio_system \<Rightarrow> audio_system" where
  "updatePrefs a s = updatePrefs_panning a (updatePrefs_routing a (updatePrefs_volumes a s))"

section \<open>The echo-cancellation loopback: \<open>enableChromeAEC\<close>\<close>

datatype peer = Outbound | Inbound

datatype ice_state = IceNew | Checking | Connected | Completed | Failed | Disconnected | Closed

text \<open>One call of \<open>enableChromeAEC\<close> creates one session (lines 37-44): an audio element, a
  loopback stream destination and two peer connections. \<open>closed\<close> records whether
  \<open>close()\<close> was called on a connection.\<close>

record session =
  loopbackDestination :: node
  outbound_ice :: ice_state
  inbound_ice :: ice_state
  outbound_closed :: bool
  inbound_closed :: bool

datatype call =
    AddTrack
  | CreateOffer
  | SetLocalDescription peer
  | SetRemoteDescription peer
  | CreateAnswer
  | RewriteSdp

datatype aec_event =
    Invoked call              \<comment> \<open>the call is made\<close>
  | Settled call outcome      \<comment> \<open>its promise settles (for a synchronous call: it returns or throws)\<close>
  | GainDisconnect            \<comment> \<open>\<open>gainNode.disconnect()\<close>\<close>
  | GainConnect node          \<comment> \<open>\<open>gainNode.connect(loopbackDestination)\<close>\<close>
  | OnError                   \<comment> \<open>the \<open>catch\<close> block runs \<open>onError\<close>\<close>

text \<open>The promise of \<open>outboundPeerConnection.setLocalDescription(offer)\<close> is not awaited.
  It settles while the function is suspended at one of the two later \<open>await\<close>s, or after the
  function has finished.\<close>

datatype settle_point = DuringSetRemoteAwait | DuringCreateAnswerAwait | AfterReturn

text \<open>The behaviour of the browser during one negotiation: whether the synchronous steps
  throw, how each promise settles, and when the promise that is not awaited settles.\<close>

record platform =
  addTrack_ok :: bool
  createOffer_result :: outcome
  setLocalDescription_result :: "peer \<Rightarrow> outcome"
  setRemoteDescription_result :: "peer \<Rightarrow> outcome"
  createAnswer_result :: outcome
  rewriteSdp_ok :: bool
  outbound_local_settles :: settle_point

text \<open>The module-level state: the variable \<open>delayedReconnectTimeout\<close>, the reconnect
  timeouts that are scheduled and have neither fired nor been cleared (handle and delay in
  milliseconds), the sessions created so far, the nodes the final mix gain node (the
  \<open>gainNode\<close> argument, always \<open>this.destinationGain\<close>) is connected to, and the events of
  all negotiations in the order they happen.\<close>

record aec_world =
  delayedReconnectTimeout :: "nat option"
  timers :: "(nat \<times> nat) list"
  next_handle :: nat
  sessions :: "session list"
  gain_outputs :: "node set"
  trace :: "aec_event list"

text \<open>Timer handles are positive integers, so a handle is truthy.\<close>

definition aec_initial :: aec_world where
  "aec_initial =
     \<lparr> delayedReconnectTimeout = None, timers = [], next_handle = 1, sessions = [],
       gain_outputs = {Destination}, trace = [] \<rparr>"

definition setTimeout :: "nat \<Rightarrow> aec_world \<Rightarrow> nat \<times> aec_world" where
  "setTimeout delay w =
     (next_handle w,
      w\<lparr>timers := timers w @ [(next_handle w, delay)], next_handle := Suc (next_handle w)\<rparr>)"

definition clearTimeout :: "nat \<Rightarrow> aec_world \<Rightarrow> aec_world" where
  "clearTimeout h w = w\<lparr>timers := filter (\<lambda>t. fst t \<noteq> h) (timers w)\<rparr>"

definition truthy :: "nat option \<Rightarrow> bool" where
  "truthy v = (case v of None \<Rightarrow> False | Some h \<Rightarrow> h \<noteq> 0)"

text \<open>Lines 5-18, up to the callback, which is \<open>timer_fires\<close> below.\<close>

definition performDelayedReconnect :: "aec_world \<Rightarrow> aec_world" where
  "performDelayedReconnect w =
     (let w1 = (if truthy (delayedReconnectTimeout w)
                then clearTimeout (the (delayedReconnectTimeout w)) w else w);
          (h, w2) = setTimeout 10000 w1
      in w2\<lparr>delayedReconnectTimeout := Some h\<rparr>)"

definition create_session :: "aec_world \<Rightarrow> aec_world" where
  "create_session w =
     w\<lparr>sessions := sessions w @
         [\<lparr> loopbackDestination = LoopbackDestination (length (sessions w)),
            outbound_ice = IceNew, inbound_ice = IceNew,
            outbound_closed = False, inbound_closed = False \<rparr>]\<rparr>"

definition outbound_local :: "platform \<Rightarrow> aec_event" where
  "outbound_local p = Settled (SetLocalDescription Outbound) (setLocalDescription_result p Outbound)"

definition settles_at :: "platform \<Rightarrow> settle_point \<Rightarrow> aec_event list" where
  "settles_at p pt = (if outbound_local_settles p = pt then [outbound_local p] else [])"

definition settles_later :: "platform \<Rightarrow> settle_point list \<Rightarrow> aec_event list" where
  "settles_later p pts = (if outbound_local_settles p \<in> set pts then [] else [outbound_local p])"

text \<open>Lines 90-118: the events of the \<open>try\<close> block, in order. A synchronous throw and a
  rejection of an awaited promise go to the \<open>catch\<close> block; the rejection of a promise that
  is not awaited goes nowhere in this function. A promise created in a synchronous stretch of
  code settles only after that stretch has ended, so the two promises created on lines 111 and
  112 settle after line 115.\<close>

definition negotiation :: "platform \<Rightarrow> node \<Rightarrow> aec_event list" where
  "negotiation p dest =
     Invoked AddTrack #
     (if \<not> addTrack_ok p then [Settled AddTrack Rejected, OnError]
      else
        [Settled AddTrack Fulfilled, Invoked CreateOffer, Settled CreateOffer (createOffer_result p)] @
        (if createOffer_result p = Rejected then [OnError]
         else
           [Invoked (SetLocalDescription Outbound), Invoked (SetRemoteDescription Inbound)] @
           settles_at p DuringSetRemoteAwait @
           [Settled (SetRemoteDescription Inbound) (setRemoteDescription_result p Inbound)] @
           (if setRemoteDescription_result p Inbound = Rejected
            then OnError # settles_later p [DuringSetRemoteAwait]
            else
              [Invoked CreateAnswer] @
              settles_at p DuringCreateAnswerAwait @
              [Settled CreateAnswer (createAnswer_result p)] @
              (if createAnswer_result p = Rejected
               then OnError # settles_later p [DuringSetRemoteAwait, DuringCreateAnswerAwait]
               else
                 Invoked RewriteSdp #
                 (if \<not> rewriteSdp_ok p
                  then [Settled RewriteSdp Rejected, OnError] @
                       settles_later p [DuringSetRemoteAwait, DuringCreateAnswerAwait]
                  else
                    [Settled RewriteSdp Fulfilled,
                     Invoked (SetLocalDescription Inbound),
                     Invoked (SetRemoteDescription Outbound),
                     GainDisconnect,
                     GainConnect dest] @
                    settles_at p AfterReturn @
                    [Settled (SetLocalDescription Inbound) (setLocalDescription_result p Inbound),
                     Settled (SetRemoteDescription Outbound)
                       (setRemoteDescription_result p Outbound)])))))"

fun perform :: "aec_world \<Rightarrow> aec_event \<Rightarrow> aec_world" where
  "perform w GainDisconnect = w\<lparr>gain_outputs := {}, trace := trace w @ [GainDisconnect]\<rparr>"
| "perform w (GainConnect d) =
     w\<lparr>gain_outputs := insert d (gain_outputs w), trace := trace w @ [GainConnect d]\<rparr>"
| "perform w e = w\<lparr>trace := trace w @ [e]\<rparr>"

text \<open>\<open>enableChromeAEC\<close> (lines 25-119): the session is created, then the \<open>try\<close> block
  runs. The model runs a negotiation to its end in one step. Between its \<open>await\<close>s the
  listeners and the timeout callback may run; they read and write the timeout variable and
  the schedule, which the \<open>try\<close> block does not touch, or start another
  \<open>enableChromeAEC\<close>. The two calls on the gain node (lines 114-115) are in one
  synchronous stretch.\<close>

definition enableChromeAEC :: "platform \<Rightarrow> aec_world \<Rightarrow> aec_world" where
  "enableChromeAEC p w =
     (let w1 = create_session w
      in foldl perform w1 (negotiation p (LoopbackDestination (length (sessions w)))))"

text \<open>The \<open>iceconnectionstatechange\<close> listeners of session \<open>k\<close> (lines 53-67 and 72-84);
  both do the same. The listeners of every session ever created stay attached.\<close>

definition set_ice :: "peer \<Rightarrow> ice_state \<Rightarrow> session \<Rightarrow> session" where
  "set_ice pc st x = (case pc of Outbound \<Rightarrow> x\<lparr>outbound_ice := st\<rparr> | Inbound \<Rightarrow> x\<lparr>inbound_ice := st\<rparr>)"

definition iceconnectionstatechange :: "nat \<Rightarrow> peer \<Rightarrow> ice_state \<Rightarrow> aec_world \<Rightarrow> aec_world" where
  "iceconnectionstatechange k pc st w =
     (if k < length (sessions w) then
        (let w1 = w\<lparr>sessions := (sessions w)[k := set_ice pc st (sessions w ! k)]\<rparr>;
             w2 = (if st = Disconnected then performDelayedReconnect w1 else w1)
         in if st = Connected \<and> truthy (delayedReconnectTimeout w2)
            then clearTimeout (the (delayedReconnectTimeout w2)) w2
            else w2)
      else w)"

text \<open>The callback of \<open>setTimeout\<close> (lines 10-17) runs when a scheduled timeout fires.\<close>

definition timer_fires :: "nat \<Rightarrow> platform \<Rightarrow> aec_world \<Rightarrow> aec_world" where
  "timer_fires h p w =
     (if h \<in> fst ` set (timers w)
      then enableChromeAEC p
             (w\<lparr>timers := filter (\<lambda>t. fst t \<noteq> h) (timers w), delayedReconnectTimeout := None\<rparr>)
      else w)"

text \<open>What can happen to the module: \<open>_resumeAudioContext\<close> calls \<open>enableChromeAEC\<close> (line
  301), a peer connection of some session changes its ICE state, a timeout fires.\<close>

datatype aec_input =
    Activate platform
  | IceChange nat peer ice_state
  | TimerFires nat platform

fun aec_step :: "aec_world \<Rightarrow> aec_input \<Rightarrow> aec_world" where
  "aec_step w (Activate p) = enableChromeAEC p w"
| "aec_step w (IceChange k pc st) = iceconnectionstatechange k pc st w"
| "aec_step w (TimerFires h p) = timer_fires h p w"

definition aec_run :: "aec_input list \<Rightarrow> aec_world" where
  "aec_run ins = foldl aec_step aec_initial ins"

definition live :: "session \<Rightarrow> bool" where
  "live x = (\<not> outbound_closed x \<or> \<not> inbound_closed x)"

definition live_sessions :: "aec_world \<Rightarrow> session list" where
  "live_sessions w = filter live (sessions w)"

text \<open>\<open>precedes a b tr\<close>: event \<open>a\<close> happens in \<open>tr\<close> before the first \<open>b\<close>.\<close>

definition precedes :: "aec_event \<Rightarrow> aec_event \<Rightarrow> aec_event list \<Rightarrow> bool" where
  "precedes a b tr = (a \<in> set (takeWhile (\<lambda>e. e \<noteq> b) tr) \<and> b \<in> set tr)"

definition all_succeed :: "settle_point \<Rightarrow> platform" where
  "all_succeed pt =
     \<lparr> addTrack_ok = True, createOffer_result = Fulfilled,
       setLocalDescription_result = (\<lambda>pc. Fulfilled),
       setRemoteDescription_result = (\<lambda>pc. Fulfilled),
       createAnswer_result = Fulfilled, rewriteSdp_ok = True,
       outbound_local_settles = pt \<rparr>"

section \<open>Auxiliary definitions\<close>

definition default_prefs :: preferences where
  "default_prefs = \<lparr> globalVoiceVolume = 100, globalMediaVolume = 100, globalSFXVolume = 100,
     disableLeftRightPanning = False, audioPanningQuality = ''High'' \<rparr>"

text \<open>The calls one \<open>updatePrefs\<close> makes to the emitter system, and the \<open>connect\<close> and
  \<open>disconnect\<close> calls it makes on the graph.\<close>

definition calls_made :: "app \<Rightarrow> audio_system \<Rightarrow> emitter_call list" where
  "calls_made a s = drop (length (emitter_calls s)) (emitter_calls (updatePrefs a s))"

definition ops_made :: "app \<Rightarrow> audio_system \<Rightarrow> graph_op list" where
  "ops_made a s = drop (length (graph_ops s)) (graph_ops (updatePrefs a s))"

text \<open>A store with voice at 50 and media at 0, output selection supported, and a headset
  selected that is not the default device.\<close>

definition example_app :: app where
  "example_app =
     \<lparr> preferences = default_prefs\<lparr>globalVoiceVolume := 50, globalMediaVolume := 0\<rparr>,
       isAudioOutputSelectEnabled = True,
       mediaDevicesManager =
         Some \<lparr> selectedSpeakersDeviceId = ''headset'', defaultOutputDeviceId = ''default'' \<rparr>,
       currentTime = 3,
       GAIN_TIME_CONST = 1 / 5,
       getCurrentAudioSettings = (\<lambda>k. Stereo),
       swapAudioType = (\<lambda>k au. au\<lparr>isPositionalAudio := \<not> isPositionalAudio au\<rparr>) \<rparr>"

text \<open>One active source that is not positional; a store in which the panning mode and the
  panning quality are as given.\<close>

definition panning_state :: audio_system where
  "panning_state = (AudioSystem default_prefs)\<lparr>audios := [(0, \<lparr>isPositionalAudio = False\<rparr>)]\<rparr>"

definition panning_app :: "bool \<Rightarrow> string \<Rightarrow> app" where
  "panning_app mode quality =
     example_app\<lparr>preferences :=
        default_prefs\<lparr>disableLeftRightPanning := mode, audioPanningQuality := quality\<rparr>\<rparr>"

text \<open>The condition of lines 220-223 under which the category nodes are moved.\<close>

definition reroute_guard :: "app \<Rightarrow> audio_system \<Rightarrow> bool" where
  "reroute_guard a s =
     (case mediaDevicesManager a of
        None \<Rightarrow> False
      | Some mdm \<Rightarrow>
          isAudioOutputSelectEnabled a
          \<and> (outputMediaAudio s \<noteq> None
               \<or> selectedSpeakersDeviceId mdm \<noteq> defaultOutputDeviceId mdm)
          \<and> map_option sinkId (outputMediaAudio s) \<noteq> Some (selectedSpeakersDeviceId mdm))"

text \<open>\<open>!isDefault\<close> of line 222, and the element that lines 247-250 leave in
  \<open>this.outputMediaAudio\<close>.\<close>

definition explicit_target :: "app \<Rightarrow> bool" where
  "explicit_target a =
     (selectedSpeakersDeviceId (the (mediaDevicesManager a))
        \<noteq> defaultOutputDeviceId (the (mediaDevicesManager a)))"

definition output_element :: "audio_system \<Rightarrow> audio_el" where
  "output_element s =
     (case outputMediaAudio s of None \<Rightarrow> new_output_element (next_element s) | Some e \<Rightarrow> e)"

text \<open>What holds of the module-level state at every moment: handles are positive and below the
  next one, a scheduled reconnect timeout is the one whose handle the variable holds, and no
  connection of any session has been closed.\<close>

definition aec_inv :: "aec_world \<Rightarrow> bool" where
  "aec_inv w =
     (0 < next_handle w
      \<and> (\<forall>t \<in> set (timers w). fst t < next_handle w)
      \<and> (timers w = []
           \<or> (\<exists>h. h \<noteq> 0 \<and> delayedReconnectTimeout w = Some h \<and> timers w = [(h, 10000)]))
      \<and> (\<forall>x \<in> set (sessions w). live x))"

text \<open>The final mix gain node feeds one sink: the real destination, or the loopback sink of
  one of the sessions.\<close>

definition one_sink :: "aec_world \<Rightarrow> bool" where
  "one_sink w =
     (gain_outputs w = {Destination}
      \<or> (\<exists>n < length (sessions w). gain_outputs w = {LoopbackDestination n}))"

text \<open>The steps whose failure reaches the \<open>catch\<close> block all succeed: the synchronous
  ones and the awaited promises.\<close>

definition negotiated :: "platform \<Rightarrow> bool" where
  "negotiated p =
     (addTrack_ok p \<and> createOffer_result p = Fulfilled
      \<and> setRemoteDescription_result p Inbound = Fulfilled
      \<and> createAnswer_result p = Fulfilled \<and> rewriteSdp_ok p)"

text \<open>A browser in which every step succeeds except
  \<open>outboundPeerConnection.setLocalDescription(offer)\<close>, whose promise is rejected.\<close>

definition outbound_local_rejected :: platform where
  "outbound_local_rejected =
     (all_succeed AfterReturn)
       \<lparr>setLocalDescription_result := (\<lambda>pc. case pc of Outbound \<Rightarrow> Rejected | Inbound \<Rightarrow> Fulfilled)\<rparr>"

text \<open>One activation, then the inbound connection of that session reports
  \<open>disconnected\<close>.\<close>

definition disconnected_once :: "aec_input list" where
  "disconnected_once = [Activate (all_succeed AfterReturn), IceChange 0 Inbound Disconnected]"

section \<open>Properties of the outbound aggregator\<close>

lemma outputs_connect:
  "outputs (connect a b E) x = (if x = a then insert b (outputs E x) else outputs E x)"
  by (auto simp: outputs_def connect_def)

lemma outputs_disconnect:
  "outputs (disconnect a E) x = (if x = a then {} else outputs E x)"
  by (auto simp: outputs_def disconnect_def)

lemma inputs_connect:
  "inputs (connect a b E) x = (if x = b then insert a (inputs E x) else inputs E x)"
  by (auto simp: inputs_def connect_def)

lemma inputs_disconnect: "inputs (disconnect a E) x = inputs E x - {a}"
  by (auto simp: inputs_def disconnect_def)

lemma fresh_ok_outputs:
  "fresh_ok s \<Longrightarrow> \<not> node_below (next_node s) a \<Longrightarrow> outputs (edges s) a = {}"
  by (auto simp: fresh_ok_def outputs_def)

lemma fresh_ok_inputs:
  "fresh_ok s \<Longrightarrow> \<not> node_below (next_node s) a \<Longrightarrow> inputs (edges s) b - {a} = inputs (edges s) b"
  by (auto simp: fresh_ok_def inputs_def)

lemma fresh_ok_init: "fresh_ok (AudioSystem prefs)"
  by (simp add: fresh_ok_def AudioSystem_def)

lemma edges_remove:
  "edges (removeStreamFromOutboundAudio i s) =
     (case audioNodes s i of None \<Rightarrow> edges s
      | Some (a, b) \<Rightarrow> disconnect b (disconnect a (edges s)))"
  by (simp add: removeStreamFromOutboundAudio_def do_disconnect_def Let_def split: option.splits)

lemma next_node_remove: "next_node (removeStreamFromOutboundAudio i s) = next_node s"
  by (simp add: removeStreamFromOutboundAudio_def do_disconnect_def Let_def split: option.splits)

lemma audioNodes_remove: "audioNodes (removeStreamFromOutboundAudio i s) = (audioNodes s)(i := None)"
  by (auto simp add: removeStreamFromOutboundAudio_def do_disconnect_def Let_def split: option.splits)

lemma disconnect_subset: "disconnect a E \<subseteq> E"
  by (auto simp: disconnect_def)

lemma fresh_okI:
  "(\<And>a b. (a, b) \<in> edges s \<Longrightarrow> node_below (next_node s) a \<and> node_below (next_node s) b)
     \<Longrightarrow> fresh_ok s"
  by (auto simp: fresh_ok_def)

lemma fresh_okD:
  "fresh_ok s \<Longrightarrow> (a, b) \<in> edges s \<Longrightarrow> node_below (next_node s) a \<and> node_below (next_node s) b"
  by (auto simp: fresh_ok_def)

lemma edges_remove_subset: "edges (removeStreamFromOutboundAudio i s) \<subseteq> edges s"
  by (auto simp: edges_remove disconnect_def split: option.splits)

lemma fresh_ok_remove: "fresh_ok s \<Longrightarrow> fresh_ok (removeStreamFromOutboundAudio i s)"
proof (rule fresh_okI)
  fix a b
  assume f: "fresh_ok s" and e: "(a, b) \<in> edges (removeStreamFromOutboundAudio i s)"
  from e edges_remove_subset have "(a, b) \<in> edges s" by blast
  with f show "node_below (next_node (removeStreamFromOutboundAudio i s)) a
             \<and> node_below (next_node (removeStreamFromOutboundAudio i s)) b"
    by (simp add: next_node_remove fresh_okD)
qed

lemma node_below_mono: "node_below n x \<Longrightarrow> n \<le> m \<Longrightarrow> node_below m x"
  by (cases x) auto

lemma edges_add:
  "edges (addStreamToOutboundAudio i m s) =
     connect (Gain (Suc (next_node s))) OutboundGainNode
       (connect (MediaStreamSource (next_node s) m) (Gain (Suc (next_node s)))
          (case audioNodes s i of None \<Rightarrow> edges s
           | Some (a, b) \<Rightarrow> disconnect b (disconnect a (edges s))))"
  by (simp add: addStreamToOutboundAudio_def do_connect_def Let_def edges_remove next_node_remove
      split: option.splits)

lemma next_node_add: "next_node (addStreamToOutboundAudio i m s) = next_node s + 2"
  by (simp add: addStreamToOutboundAudio_def do_connect_def Let_def next_node_remove)

lemma audioNodes_add:
  "audioNodes (addStreamToOutboundAudio i m s) =
     (audioNodes s)(i \<mapsto> (MediaStreamSource (next_node s) m, Gain (Suc (next_node s))))"
  by (auto simp add: addStreamToOutboundAudio_def do_connect_def Let_def next_node_remove audioNodes_remove)

lemma edges_add_cases:
  assumes "(a, b) \<in> edges (addStreamToOutboundAudio i m s)"
  shows "(a, b) \<in> edges s
       \<or> (a, b) = (Gain (Suc (next_node s)), OutboundGainNode)
       \<or> (a, b) = (MediaStreamSource (next_node s) m, Gain (Suc (next_node s)))"
  using assms by (auto simp: edges_add connect_def disconnect_def split: option.splits)

lemma fresh_ok_add: "fresh_ok s \<Longrightarrow> fresh_ok (addStreamToOutboundAudio i m s)"
proof (rule fresh_okI)
  fix a b
  assume f: "fresh_ok s" and e: "(a, b) \<in> edges (addStreamToOutboundAudio i m s)"
  from edges_add_cases [OF e]
  show "node_below (next_node (addStreamToOutboundAudio i m s)) a
      \<and> node_below (next_node (addStreamToOutboundAudio i m s)) b"
  proof (elim disjE)
    assume "(a, b) \<in> edges s"
    with f have "node_below (next_node s) a \<and> node_below (next_node s) b"
      by (rule fresh_okD)
    then show ?thesis
      by (auto simp: next_node_add intro: node_below_mono)
  qed (simp_all add: next_node_add)
qed

text \<open>
  C7. From every state in which the nodes of the graph are below the allocation counter (as in
  every state the constructor and the stream operations produce), calling
  \<open>addStreamToOutboundAudio\<close> twice with the same identifier leaves one pair registered
  under it, the pair made from the second stream, wired source to gain to the shared outbound
  gain; the pair of the first call has no outgoing connection left, the outbound gain has gained
  exactly one input and lost the inputs of the pair registered before, and no other identifier
  is touched.
\<close>

theorem addStream_twice_one_pair:
  assumes "fresh_ok s"
  shows "let n = next_node s;
             s1 = addStreamToOutboundAudio i m1 s;
             s2 = addStreamToOutboundAudio i m2 s1;
             old = (case audioNodes s i of None \<Rightarrow> {} | Some (a, b) \<Rightarrow> {a, b})
         in audioNodes s1 i = Some (MediaStreamSource n m1, Gain (n + 1))
          \<and> audioNodes s2 i = Some (MediaStreamSource (n + 2) m2, Gain (n + 3))
          \<and> outputs (edges s2) (MediaStreamSource (n + 2) m2) = {Gain (n + 3)}
          \<and> outputs (edges s2) (Gain (n + 3)) = {OutboundGainNode}
          \<and> outputs (edges s2) (MediaStreamSource n m1) = {}
          \<and> outputs (edges s2) (Gain (n + 1)) = {}
          \<and> inputs (edges s2) OutboundGainNode
              = insert (Gain (n + 3)) (inputs (edges s) OutboundGainNode - old)
          \<and> (\<forall>j. j \<noteq> i \<longrightarrow> audioNodes s2 j = audioNodes s j)"
proof -
  define n where "n = next_node s"
  define E0 where "E0 = (case audioNodes s i of None \<Rightarrow> edges s
                         | Some (a, b) \<Rightarrow> disconnect b (disconnect a (edges s)))"
  define old where "old = (case audioNodes s i of None \<Rightarrow> {} | Some (a, b) \<Rightarrow> {a, b})"
  define s1 where "s1 = addStreamToOutboundAudio i m1 s"
  define s2 where "s2 = addStreamToOutboundAudio i m2 s1"
  have E0_out: "outputs E0 x = {}" if "outputs (edges s) x = {}" for x
    using that by (simp add: E0_def outputs_disconnect split: option.splits prod.splits)
  have E0_in: "inputs E0 OutboundGainNode = inputs (edges s) OutboundGainNode - old"
    by (auto simp: E0_def old_def inputs_disconnect split: option.splits)
  have n1: "audioNodes s1 i = Some (MediaStreamSource n m1, Gain (n + 1))"
    by (simp add: s1_def n_def audioNodes_add)
  have e1: "edges s1 = connect (Gain (n + 1)) OutboundGainNode
                         (connect (MediaStreamSource n m1) (Gain (n + 1)) E0)"
    by (simp add: s1_def n_def edges_add E0_def)
  have nn1: "next_node s1 = n + 2"
    by (simp add: s1_def n_def next_node_add)
  have n2: "audioNodes s2 = (audioNodes s1)(i \<mapsto> (MediaStreamSource (n + 2) m2, Gain (n + 3)))"
    by (simp add: s2_def audioNodes_add nn1 numeral_3_eq_3)
  have e2: "edges s2 = connect (Gain (n + 3)) OutboundGainNode
                         (connect (MediaStreamSource (n + 2) m2) (Gain (n + 3))
                            (disconnect (Gain (n + 1)) (disconnect (MediaStreamSource n m1) (edges s1))))"
    by (simp add: s2_def edges_add n1 nn1 numeral_3_eq_3)
  have o1: "outputs E0 (MediaStreamSource (n + 2) m2) = {}"
    and o2: "outputs E0 (Gain (n + 3)) = {}"
    using assms by (simp_all add: E0_out fresh_ok_outputs n_def)
  have i1: "MediaStreamSource n m1 \<notin> inputs (edges s) OutboundGainNode"
    and i2: "Gain (n + 1) \<notin> inputs (edges s) OutboundGainNode"
    using assms by (auto simp: fresh_ok_def inputs_def n_def)
  have c1: "outputs (edges s2) (MediaStreamSource (n + 2) m2) = {Gain (n + 3)}"
    using o1 by (simp add: e2 e1 outputs_connect outputs_disconnect)
  have c2: "outputs (edges s2) (Gain (n + 3)) = {OutboundGainNode}"
    using o2 by (simp add: e2 e1 outputs_connect outputs_disconnect)
  have c3: "outputs (edges s2) (MediaStreamSource n m1) = {}"
    by (simp add: e2 e1 outputs_connect outputs_disconnect)
  have c4: "outputs (edges s2) (Gain (n + 1)) = {}"
    by (simp add: e2 e1 outputs_connect outputs_disconnect)
  have c5: "inputs (edges s2) OutboundGainNode
              = insert (Gain (n + 3)) (inputs (edges s) OutboundGainNode - old)"
    using i1 i2 by (auto simp: e2 e1 inputs_connect inputs_disconnect E0_in)
  have c6: "\<forall>j. j \<noteq> i \<longrightarrow> audioNodes s2 j = audioNodes s j"
    by (simp add: n2 s1_def audioNodes_add)
  have c7: "audioNodes s2 i = Some (MediaStreamSource (n + 2) m2, Gain (n + 3))"
    by (simp add: n2)
  show ?thesis
    unfolding Let_def
    using n1 c7 c1 c2 c3 c4 c5 c6
    unfolding n_def s1_def s2_def old_def by blast
qed

lemma init_fields:
  "next_node (AudioSystem p) = 0" "audioNodes (AudioSystem p) = Map.empty"
  "inputs (edges (AudioSystem p)) OutboundGainNode = {}"
  by (auto simp: AudioSystem_def inputs_def)

theorem addStream_twice_one_pair_witness:
  "fresh_ok (AudioSystem default_prefs) \<and>
   audioNodes (addStreamToOutboundAudio ''mic'' 2
      (addStreamToOutboundAudio ''mic'' 1 (AudioSystem default_prefs))) ''mic''
     = Some (MediaStreamSource 2 2, Gain 3) \<and>
   inputs (edges (addStreamToOutboundAudio ''mic'' 2
      (addStreamToOutboundAudio ''mic'' 1 (AudioSystem default_prefs)))) OutboundGainNode
     = {Gain 3}"
  using addStream_twice_one_pair [of "AudioSystem default_prefs" "''mic''" 1 2]
  by (simp add: Let_def fresh_ok_init init_fields)

section \<open>Properties of the mixer graph and of \<open>updatePrefs\<close>\<close>

lemma edges_do_connect: "edges (do_connect a b s) = connect a b (edges s)"
  by (simp add: do_connect_def)

lemma edges_do_disconnect: "edges (do_disconnect a s) = disconnect a (edges s)"
  by (simp add: do_disconnect_def)

lemma mixer_None: "(mixer t = None) = (t \<notin> {AVATAR_AUDIO_SOURCE, MEDIA_VIDEO, AUDIO_TARGET, SFX})"
  by (cases t) simp_all

text \<open>
  C10. \<open>addAudio\<close> returns normally exactly for the four keys of the mixer table, of which
  media-video and audio-target hold the same gain node; then the node's only connection is to
  the gain node of its category. For any other source type the lookup gives no node, the call
  ends in a \<open>TypeError\<close>, and the node is connected to nothing: not to a default node, and
  (the \<open>disconnect\<close> of line 197 having run) no longer to where it was.
\<close>

theorem addAudio_closed_table:
  "((\<exists>s'. addAudio n t s = Inr s') = (t \<in> {AVATAR_AUDIO_SOURCE, MEDIA_VIDEO, AUDIO_TARGET, SFX}))
   \<and> mixer MEDIA_VIDEO = mixer AUDIO_TARGET
   \<and> (t \<notin> {AVATAR_AUDIO_SOURCE, MEDIA_VIDEO, AUDIO_TARGET, SFX} \<longrightarrow>
         (\<exists>s'. addAudio n t s = Inl (TypeError, s') \<and> outputs (edges s') n = {}))
   \<and> (\<forall>s'. addAudio n t s = Inr s' \<longrightarrow>
         (\<exists>g. mixer t = Some g \<and> outputs (edges s') n = {g}))"
proof (intro conjI)
  show "(\<exists>s'. addAudio n t s = Inr s') = (t \<in> {AVATAR_AUDIO_SOURCE, MEDIA_VIDEO, AUDIO_TARGET, SFX})"
    by (cases t) (simp_all add: addAudio_def)
  show "mixer MEDIA_VIDEO = mixer AUDIO_TARGET" by simp
  show "t \<notin> {AVATAR_AUDIO_SOURCE, MEDIA_VIDEO, AUDIO_TARGET, SFX} \<longrightarrow>
         (\<exists>s'. addAudio n t s = Inl (TypeError, s') \<and> outputs (edges s') n = {})"
    by (cases t) (simp_all add: addAudio_def edges_do_disconnect outputs_disconnect)
  show "\<forall>s'. addAudio n t s = Inr s' \<longrightarrow> (\<exists>g. mixer t = Some g \<and> outputs (edges s') n = {g})"
    by (cases t)
       (auto simp: addAudio_def edges_do_disconnect edges_do_connect outputs_disconnect outputs_connect)
qed

theorem addAudio_closed_table_witness:
  "Unlisted ''audio-zone'' \<notin> {AVATAR_AUDIO_SOURCE, MEDIA_VIDEO, AUDIO_TARGET, SFX}
   \<and> (\<exists>s'. addAudio (Producer 0) (Unlisted ''audio-zone'') (AudioSystem default_prefs)
              = Inl (TypeError, s') \<and> outputs (edges s') (Producer 0) = {})
   \<and> (\<exists>s'. addAudio (Producer 0) SFX (AudioSystem default_prefs) = Inr s'
              \<and> outputs (edges s') (Producer 0) = {SfxGain})"
  using addAudio_closed_table [of "Producer 0" "Unlisted ''audio-zone''" "AudioSystem default_prefs"]
        addAudio_closed_table [of "Producer 0" SFX "AudioSystem default_prefs"]
  by auto

lemma updatePrefs_volumes_eq:
  "updatePrefs_volumes a s =
     s\<lparr>automation := automation s @
        [(MediaGain, SetTargetAtTime (globalMediaVolume (preferences a) / 100)
                       (currentTime a) (GAIN_TIME_CONST a)),
         (SfxGain, SetTargetAtTime (globalSFXVolume (preferences a) / 100)
                       (currentTime a) (GAIN_TIME_CONST a)),
         (AvatarGain, SetTargetAtTime (globalVoiceVolume (preferences a) / 100)
                       (currentTime a) (GAIN_TIME_CONST a))]\<rparr>"
  by (simp add: updatePrefs_volumes_def setTargetAtTime_def Let_def)

lemma reroute_fields:
  "automation (reroute d s) = automation s"
  "audios (reroute d s) = audios s"
  "emitter_calls (reroute d s) = emitter_calls s"
  "this_disableLeftRightPanning (reroute d s) = this_disableLeftRightPanning s"
  "this_audioPanningQuality (reroute d s) = this_audioPanningQuality s"
  "outputMediaAudio (reroute d s) = outputMediaAudio s"
  "sink_requests (reroute d s) = sink_requests s"
  "next_element (reroute d s) = next_element s"
  "unhandled_rejections (reroute d s) = unhandled_rejections s"
  by (simp_all add: reroute_def do_connect_def do_disconnect_def Let_def)

lemma reroute_graph_ops:
  "graph_ops (reroute d s) = graph_ops s @
     [OpDisconnect AvatarGain, OpConnect AvatarGain d, OpConnect AvatarGain MixerAnalyser,
      OpDisconnect MediaGain, OpConnect MediaGain d, OpConnect MediaGain MixerAnalyser,
      OpDisconnect SfxGain, OpConnect SfxGain d, OpConnect SfxGain MixerAnalyser]"
  by (simp add: reroute_def do_connect_def do_disconnect_def Let_def)


lemma routing_fields:
  "automation (updatePrefs_routing a s) = automation s"
  "audios (updatePrefs_routing a s) = audios s"
  "emitter_calls (updatePrefs_routing a s) = emitter_calls s"
  "this_disableLeftRightPanning (updatePrefs_routing a s) = this_disableLeftRightPanning s"
  "this_audioPanningQuality (updatePrefs_routing a s) = this_audioPanningQuality s"
  by (simp_all add: updatePrefs_routing_def reroute_fields Let_def
      split: option.splits prod.splits)

lemma panning_fields:
  "automation (updatePrefs_panning a s) = automation s"
  "edges (updatePrefs_panning a s) = edges s"
  "graph_ops (updatePrefs_panning a s) = graph_ops s"
  "outputMediaAudio (updatePrefs_panning a s) = outputMediaAudio s"
  "sink_requests (updatePrefs_panning a s) = sink_requests s"
  "unhandled_rejections (updatePrefs_panning a s) = unhandled_rejections s"
  by (simp_all add: updatePrefs_panning_def Let_def)

lemma automation_updatePrefs:
  "automation (updatePrefs a s) = automation (updatePrefs_volumes a s)"
  by (simp add: updatePrefs_def panning_fields routing_fields)

text \<open>
  C8. With the three volumes in \<open>[0, 100]\<close>, one \<open>updatePrefs\<close> schedules exactly three
  gain changes, one per category gain node (audio-target shares the media node): each is a
  \<open>setTargetAtTime\<close> to the volume divided by 100, a value in \<open>[0, 1]\<close>, starting at the
  current time of the audio clock with the time constant \<open>GAIN_TIME_CONST\<close>. It never writes
  a gain value directly.
\<close>

theorem updatePrefs_gains_smoothed:
  assumes "0 \<le> globalVoiceVolume (preferences a) \<and> globalVoiceVolume (preferences a) \<le> 100"
    and "0 \<le> globalMediaVolume (preferences a) \<and> globalMediaVolume (preferences a) \<le> 100"
    and "0 \<le> globalSFXVolume (preferences a) \<and> globalSFXVolume (preferences a) \<le> 100"
  shows "let voice = globalVoiceVolume (preferences a) / 100;
             media = globalMediaVolume (preferences a) / 100;
             sfx = globalSFXVolume (preferences a) / 100
         in automation (updatePrefs a s) = automation s @
              [(MediaGain, SetTargetAtTime media (currentTime a) (GAIN_TIME_CONST a)),
               (SfxGain, SetTargetAtTime sfx (currentTime a) (GAIN_TIME_CONST a)),
               (AvatarGain, SetTargetAtTime voice (currentTime a) (GAIN_TIME_CONST a))]
          \<and> 0 \<le> voice \<and> voice \<le> 1 \<and> 0 \<le> media \<and> media \<le> 1 \<and> 0 \<le> sfx \<and> sfx \<le> 1
          \<and> mixer MEDIA_VIDEO = Some MediaGain \<and> mixer AUDIO_TARGET = Some MediaGain
          \<and> mixer SFX = Some SfxGain \<and> mixer AVATAR_AUDIO_SOURCE = Some AvatarGain
          \<and> (\<forall>g v. (g, SetValue v) \<in> set (automation (updatePrefs a s))
                 \<longrightarrow> (g, SetValue v) \<in> set (automation s))"
  using assms
  by (simp add: Let_def automation_updatePrefs updatePrefs_volumes_eq)

lemma example_app_fields:
  "globalVoiceVolume (preferences example_app) = 50"
  "globalMediaVolume (preferences example_app) = 0"
  "globalSFXVolume (preferences example_app) = 100"
  "currentTime example_app = 3"
  "GAIN_TIME_CONST example_app = 1 / 5"
  by (simp_all add: example_app_def default_prefs_def)

lemma automation_init: "automation (AudioSystem p) = []"
  by (simp add: AudioSystem_def)

theorem updatePrefs_gains_smoothed_witness:
  "automation (updatePrefs example_app (AudioSystem default_prefs)) =
     [(MediaGain, SetTargetAtTime 0 3 (1 / 5)),
      (SfxGain, SetTargetAtTime 1 3 (1 / 5)),
      (AvatarGain, SetTargetAtTime (1 / 2) 3 (1 / 5))]"
  using updatePrefs_gains_smoothed [of example_app "AudioSystem default_prefs"]
  by (simp add: Let_def example_app_fields automation_init)

lemma volumes_fields:
  "audios (updatePrefs_volumes a s) = audios s"
  "emitter_calls (updatePrefs_volumes a s) = emitter_calls s"
  "this_disableLeftRightPanning (updatePrefs_volumes a s) = this_disableLeftRightPanning s"
  "this_audioPanningQuality (updatePrefs_volumes a s) = this_audioPanningQuality s"
  "edges (updatePrefs_volumes a s) = edges s"
  "graph_ops (updatePrefs_volumes a s) = graph_ops s"
  "outputMediaAudio (updatePrefs_volumes a s) = outputMediaAudio s"
  "sink_requests (updatePrefs_volumes a s) = sink_requests s"
  "unhandled_rejections (updatePrefs_volumes a s) = unhandled_rejections s"
  by (simp_all add: updatePrefs_volumes_eq)

lemma emitter_calls_updatePrefs:
  "emitter_calls (updatePrefs a s) = emitter_calls s @
     concat (map (\<lambda>e. snd (panning_step a
                (this_disableLeftRightPanning s \<noteq> disableLeftRightPanning (preferences a))
                (this_audioPanningQuality s \<noteq> audioPanningQuality (preferences a)) e))
        (audios s))"
  by (simp add: updatePrefs_def updatePrefs_panning_def Let_def routing_fields volumes_fields
      comp_def)

lemma calls_made_eq:
  "calls_made a s =
     concat (map (\<lambda>e. snd (panning_step a
                (this_disableLeftRightPanning s \<noteq> disableLeftRightPanning (preferences a))
                (this_audioPanningQuality s \<noteq> audioPanningQuality (preferences a)) e))
        (audios s))"
  by (simp add: calls_made_def emitter_calls_updatePrefs)

lemma swap_in_step:
  "(SwapAudioType k \<in> set (snd (panning_step a r u e))) =
     (r \<and> fst e = k \<and>
      ((\<not> isPositionalAudio (snd e) \<and> getCurrentAudioSettings a k = PannerNode)
       \<or> (isPositionalAudio (snd e) \<and> getCurrentAudioSettings a k = Stereo)))"
  by (auto simp: panning_step_def Let_def)

lemma reapply_in_step:
  "(UpdateAudioSettings k \<in> set (snd (panning_step a r u e))) = (\<not> r \<and> u \<and> fst e = k)"
  by (auto simp: panning_step_def Let_def)

text \<open>
  C9, as the code has it. For every source key, one \<open>updatePrefs\<close> never both switches the
  technique and re-applies the settings. It switches exactly when the panning mode changed and
  the source's technique differs from the one its current settings ask for; it re-applies
  exactly when the panning mode did not change, the panning quality did, and the source is
  active. So at most one of the two happens, and none may.
\<close>

theorem updatePrefs_switch_or_reapply:
  "let calls = calls_made a s;
       modeChanged = (this_disableLeftRightPanning s \<noteq> disableLeftRightPanning (preferences a));
       qualityChanged = (this_audioPanningQuality s \<noteq> audioPanningQuality (preferences a))
   in \<not> (SwapAudioType k \<in> set calls \<and> UpdateAudioSettings k \<in> set calls)
    \<and> (SwapAudioType k \<in> set calls) =
        (modeChanged \<and>
         (\<exists>au. (k, au) \<in> set (audios s) \<and>
            ((\<not> isPositionalAudio au \<and> getCurrentAudioSettings a k = PannerNode)
             \<or> (isPositionalAudio au \<and> getCurrentAudioSettings a k = Stereo))))
    \<and> (UpdateAudioSettings k \<in> set calls) =
        (\<not> modeChanged \<and> qualityChanged \<and> k \<in> fst ` set (audios s))"
proof -
  define r where "r = (this_disableLeftRightPanning s \<noteq> disableLeftRightPanning (preferences a))"
  define u where "u = (this_audioPanningQuality s \<noteq> audioPanningQuality (preferences a))"
  have c: "set (calls_made a s) = (\<Union>e \<in> set (audios s). set (snd (panning_step a r u e)))"
    by (simp add: calls_made_eq r_def u_def)
  have sw: "(SwapAudioType k \<in> set (calls_made a s)) =
        (r \<and> (\<exists>au. (k, au) \<in> set (audios s) \<and>
            ((\<not> isPositionalAudio au \<and> getCurrentAudioSettings a k = PannerNode)
             \<or> (isPositionalAudio au \<and> getCurrentAudioSettings a k = Stereo))))"
    unfolding c by (force simp: swap_in_step)
  have re: "(UpdateAudioSettings k \<in> set (calls_made a s)) = (\<not> r \<and> u \<and> k \<in> fst ` set (audios s))"
    unfolding c by (force simp: reapply_in_step)
  show ?thesis
    unfolding Let_def r_def [symmetric] u_def [symmetric] sw re by blast
qed

lemma panning_example_fields:
  "audios panning_state = [(0, \<lparr>isPositionalAudio = False\<rparr>)]"
  "this_disableLeftRightPanning panning_state = False"
  "this_audioPanningQuality panning_state = ''High''"
  "disableLeftRightPanning (preferences (panning_app m q)) = m"
  "audioPanningQuality (preferences (panning_app m q)) = q"
  "getCurrentAudioSettings (panning_app m q) k = Stereo"
  by (simp_all add: panning_state_def panning_app_def example_app_def AudioSystem_def
      default_prefs_def)

text \<open>
  C9 fails as stated: the panning mode changes, the one active source is not positional and its
  settings ask for stereo, and \<open>updatePrefs\<close> neither switches its technique nor re-applies
  its settings.
\<close>

theorem updatePrefs_mode_change_without_action:
  "(0, \<lparr>isPositionalAudio = False\<rparr>) \<in> set (audios panning_state)
   \<and> this_disableLeftRightPanning panning_state
       \<noteq> disableLeftRightPanning (preferences (panning_app True ''High''))
   \<and> SwapAudioType 0 \<notin> set (calls_made (panning_app True ''High'') panning_state)
   \<and> UpdateAudioSettings 0 \<notin> set (calls_made (panning_app True ''High'') panning_state)"
  by (simp add: calls_made_eq panning_example_fields panning_step_def)

theorem updatePrefs_switch_or_reapply_witness:
  "this_audioPanningQuality panning_state
       \<noteq> audioPanningQuality (preferences (panning_app False ''Low''))
   \<and> UpdateAudioSettings 0 \<in> set (calls_made (panning_app False ''Low'') panning_state)
   \<and> SwapAudioType 0 \<notin> set (calls_made (panning_app False ''Low'') panning_state)"
  using updatePrefs_switch_or_reapply [where k = 0 and a = "panning_app False ''Low''" and s = panning_state]
  by (simp add: Let_def panning_example_fields)

lemma routing_graph_ops:
  "graph_ops (updatePrefs_routing a s) =
     (if reroute_guard a s
      then graph_ops (reroute (if selectedSpeakersDeviceId (the (mediaDevicesManager a))
                                   = defaultOutputDeviceId (the (mediaDevicesManager a))
                               then DestinationGain else AudioDestination) s)
      else graph_ops s)"
  by (auto simp add: updatePrefs_routing_def reroute_guard_def reroute_fields Let_def
      split: option.splits prod.splits)


lemma graph_ops_updatePrefs:
  "graph_ops (updatePrefs a s) = graph_ops (updatePrefs_routing a (updatePrefs_volumes a s))"
  by (simp add: updatePrefs_def panning_fields)

lemma reroute_guard_volumes: "reroute_guard a (updatePrefs_volumes a s) = reroute_guard a s"
  by (simp add: reroute_guard_def volumes_fields split: option.splits)

lemma ops_made_eq:
  "ops_made a s =
     (if reroute_guard a s
      then (let d = (if selectedSpeakersDeviceId (the (mediaDevicesManager a))
                          = defaultOutputDeviceId (the (mediaDevicesManager a))
                     then DestinationGain else AudioDestination)
            in [OpDisconnect AvatarGain, OpConnect AvatarGain d, OpConnect AvatarGain MixerAnalyser,
                OpDisconnect MediaGain, OpConnect MediaGain d, OpConnect MediaGain MixerAnalyser,
                OpDisconnect SfxGain, OpConnect SfxGain d, OpConnect SfxGain MixerAnalyser])
      else [])"
  by (simp add: ops_made_def graph_ops_updatePrefs routing_graph_ops reroute_guard_volumes
      reroute_graph_ops volumes_fields Let_def)

text \<open>
  C6, as the code has it. \<open>updatePrefs\<close> disconnects and reconnects the category nodes
  exactly when output selection is supported, a hidden element exists or the selected device
  is not the default, and the selected device id differs from the sink id the hidden element
  has at that moment (none without an element). No last-checked id is kept: the comparison is
  with the element, whose sink id changes only when a redirect succeeds.
\<close>

theorem updatePrefs_reroute_guard:
  "(ops_made a s \<noteq> []) =
     (\<exists>mdm. mediaDevicesManager a = Some mdm
        \<and> isAudioOutputSelectEnabled a
        \<and> (outputMediaAudio s \<noteq> None
             \<or> selectedSpeakersDeviceId mdm \<noteq> defaultOutputDeviceId mdm)
        \<and> map_option sinkId (outputMediaAudio s) \<noteq> Some (selectedSpeakersDeviceId mdm))"
  by (auto simp: ops_made_eq reroute_guard_def Let_def split: option.splits)

lemma routing_outputMediaAudio:
  "outputMediaAudio (updatePrefs_routing a s) =
     (if reroute_guard a s
      then (if explicit_target a then Some (output_element s) else None)
      else outputMediaAudio s)"
  by (auto simp add: updatePrefs_routing_def reroute_guard_def reroute_fields Let_def
      explicit_target_def output_element_def split: option.splits prod.splits)

lemma routing_sink_requests:
  "sink_requests (updatePrefs_routing a s) =
     (if reroute_guard a s \<and> explicit_target a
         \<and> sinkId (output_element s) \<noteq> selectedSpeakersDeviceId (the (mediaDevicesManager a))
      then sink_requests s @
             [(el_id (output_element s), selectedSpeakersDeviceId (the (mediaDevicesManager a)))]
      else sink_requests s)"
  by (auto simp add: updatePrefs_routing_def reroute_guard_def reroute_fields Let_def
      explicit_target_def output_element_def split: option.splits prod.splits)

lemma volumes_output_element: "output_element (updatePrefs_volumes a s) = output_element s"
  by (simp add: output_element_def updatePrefs_volumes_eq split: option.splits)

lemma updatePrefs_outputMediaAudio:
  "outputMediaAudio (updatePrefs a s) =
     (if reroute_guard a s
      then (if explicit_target a then Some (output_element s) else None)
      else outputMediaAudio s)"
  by (simp add: updatePrefs_def panning_fields routing_outputMediaAudio reroute_guard_volumes
      volumes_fields volumes_output_element)

lemma updatePrefs_sink_requests:
  "sink_requests (updatePrefs a s) =
     (if reroute_guard a s \<and> explicit_target a
         \<and> sinkId (output_element s) \<noteq> selectedSpeakersDeviceId (the (mediaDevicesManager a))
      then sink_requests s @
             [(el_id (output_element s), selectedSpeakersDeviceId (the (mediaDevicesManager a)))]
      else sink_requests s)"
  by (simp add: updatePrefs_def panning_fields routing_sink_requests reroute_guard_volumes
      volumes_fields volumes_output_element)



lemma settle_rejected:
  "sink_requests s \<noteq> [] \<Longrightarrow>
     settle_setSinkId Rejected s =
       s\<lparr>sink_requests := tl (sink_requests s),
         unhandled_rejections := Suc (unhandled_rejections s)\<rparr>"
  by (simp add: settle_setSinkId_def Let_def split: list.splits prod.splits)


lemma init_routing_fields:
  "outputMediaAudio (AudioSystem p) = None"
  "sink_requests (AudioSystem p) = []"
  "next_element (AudioSystem p) = 0"
  "graph_ops (AudioSystem p) = []"
  by (simp_all add: AudioSystem_def)

lemma example_app_devices:
  "mediaDevicesManager example_app =
     Some \<lparr> selectedSpeakersDeviceId = ''headset'', defaultOutputDeviceId = ''default'' \<rparr>"
  "isAudioOutputSelectEnabled example_app"
  "explicit_target example_app"
  by (simp_all add: example_app_def explicit_target_def)

lemma example_first_update:
  "reroute_guard example_app (AudioSystem default_prefs)"
  "outputMediaAudio (updatePrefs example_app (AudioSystem default_prefs))
     = Some (new_output_element 0)"
  "sink_requests (updatePrefs example_app (AudioSystem default_prefs)) = [(0, ''headset'')]"
proof -
  show g: "reroute_guard example_app (AudioSystem default_prefs)"
    by (simp add: reroute_guard_def example_app_devices init_routing_fields)
  show "outputMediaAudio (updatePrefs example_app (AudioSystem default_prefs))
     = Some (new_output_element 0)"
    by (simp add: updatePrefs_outputMediaAudio g example_app_devices output_element_def
        init_routing_fields)
  show "sink_requests (updatePrefs example_app (AudioSystem default_prefs)) = [(0, ''headset'')]"
    by (simp add: updatePrefs_sink_requests g example_app_devices output_element_def
        init_routing_fields new_output_element_def)
qed


lemma example_after_rejection:
  "outputMediaAudio (settle_setSinkId Rejected (updatePrefs example_app (AudioSystem default_prefs)))
     = Some (new_output_element 0)"
  by (simp add: settle_rejected example_first_update)







lemma example_after_fulfilment:
  "outputMediaAudio (settle_setSinkId Fulfilled (updatePrefs example_app (AudioSystem default_prefs)))
     = Some ((new_output_element 0)\<lparr>sinkId := ''headset'', paused := False\<rparr>)"
  by (simp add: settle_setSinkId_def example_first_update new_output_element_def)

text \<open>
  C6 fails as stated: the headset is selected, the redirect to it is rejected, and the next
  \<open>updatePrefs\<close>, with the same device still selected, disconnects and reconnects the three
  category nodes again.
\<close>

theorem updatePrefs_reroutes_unchanged_device:
  "ops_made example_app
     (settle_setSinkId Rejected (updatePrefs example_app (AudioSystem default_prefs)))
   = [OpDisconnect AvatarGain, OpConnect AvatarGain AudioDestination,
      OpConnect AvatarGain MixerAnalyser,
      OpDisconnect MediaGain, OpConnect MediaGain AudioDestination,
      OpConnect MediaGain MixerAnalyser,
      OpDisconnect SfxGain, OpConnect SfxGain AudioDestination,
      OpConnect SfxGain MixerAnalyser]"
  by (simp add: ops_made_eq reroute_guard_def example_app_devices example_after_rejection
      new_output_element_def)

theorem updatePrefs_reroute_guard_witness:
  "ops_made example_app (AudioSystem default_prefs) \<noteq> []
   \<and> ops_made example_app
       (settle_setSinkId Fulfilled (updatePrefs example_app (AudioSystem default_prefs))) = []"
  using updatePrefs_reroute_guard [of example_app "AudioSystem default_prefs"]
    updatePrefs_reroute_guard [of example_app
      "settle_setSinkId Fulfilled (updatePrefs example_app (AudioSystem default_prefs))"]
  by (simp add: example_app_devices example_after_fulfilment init_routing_fields)

section \<open>Properties of the loopback\<close>

lemma perform_fields:
  "delayedReconnectTimeout (perform w e) = delayedReconnectTimeout w"
  "timers (perform w e) = timers w"
  "next_handle (perform w e) = next_handle w"
  "sessions (perform w e) = sessions w"
  "trace (perform w e) = trace w @ [e]"
  by (cases e; simp)+

lemma foldl_perform_fields:
  "delayedReconnectTimeout (foldl perform w es) = delayedReconnectTimeout w"
  "timers (foldl perform w es) = timers w"
  "next_handle (foldl perform w es) = next_handle w"
  "sessions (foldl perform w es) = sessions w"
  "trace (foldl perform w es) = trace w @ es"
  by (induction es arbitrary: w; simp add: perform_fields)+

lemma foldl_perform_no_gain:
  "GainDisconnect \<notin> set es \<Longrightarrow> (\<forall>d. GainConnect d \<notin> set es) \<Longrightarrow>
     gain_outputs (foldl perform w es) = gain_outputs w"
proof (induction es arbitrary: w)
  case Nil
  then show ?case by simp
next
  case (Cons e es)
  then have "gain_outputs (perform w e) = gain_outputs w"
    by (cases e) auto
  with Cons show ?case by simp
qed

lemma not_Rejected: "(r \<noteq> Rejected) = (r = Fulfilled)"
  by (cases r) simp_all

lemma negotiation_not_negotiated:
  "\<not> negotiated p \<Longrightarrow>
     GainDisconnect \<notin> set (negotiation p d) \<and> (\<forall>d'. GainConnect d' \<notin> set (negotiation p d))"
  by (auto simp: negotiated_def negotiation_def settles_at_def settles_later_def outbound_local_def
      not_Rejected)

lemma negotiation_negotiated:
  "negotiated p \<Longrightarrow>
     negotiation p d =
       [Invoked AddTrack, Settled AddTrack Fulfilled,
        Invoked CreateOffer, Settled CreateOffer Fulfilled,
        Invoked (SetLocalDescription Outbound), Invoked (SetRemoteDescription Inbound)] @
       settles_at p DuringSetRemoteAwait @
       [Settled (SetRemoteDescription Inbound) Fulfilled, Invoked CreateAnswer] @
       settles_at p DuringCreateAnswerAwait @
       [Settled CreateAnswer Fulfilled, Invoked RewriteSdp, Settled RewriteSdp Fulfilled,
        Invoked (SetLocalDescription Inbound), Invoked (SetRemoteDescription Outbound),
        GainDisconnect, GainConnect d] @
       settles_at p AfterReturn @
       [Settled (SetLocalDescription Inbound) (setLocalDescription_result p Inbound),
        Settled (SetRemoteDescription Outbound) (setRemoteDescription_result p Outbound)]"
  by (simp add: negotiated_def negotiation_def)

lemma gain_outputs_settled:
  "gain_outputs (perform w (Settled c r)) = gain_outputs w"
  "gain_outputs (perform w (Invoked c)) = gain_outputs w"
  "gain_outputs (perform w OnError) = gain_outputs w"
  by simp_all

lemma foldl_perform_settles_at:
  "gain_outputs (foldl perform w (settles_at p pt)) = gain_outputs w"
  by (simp add: settles_at_def outbound_local_def)

lemma enableChromeAEC_fields:
  "delayedReconnectTimeout (enableChromeAEC p w) = delayedReconnectTimeout w"
  "timers (enableChromeAEC p w) = timers w"
  "next_handle (enableChromeAEC p w) = next_handle w"
  "sessions (enableChromeAEC p w) = sessions w @
     [\<lparr> loopbackDestination = LoopbackDestination (length (sessions w)),
        outbound_ice = IceNew, inbound_ice = IceNew,
        outbound_closed = False, inbound_closed = False \<rparr>]"
  "trace (enableChromeAEC p w) = trace w @ negotiation p (LoopbackDestination (length (sessions w)))"
  by (simp_all add: enableChromeAEC_def Let_def foldl_perform_fields create_session_def)

lemma enableChromeAEC_gain_outputs:
  "gain_outputs (enableChromeAEC p w) =
     (if negotiated p then {LoopbackDestination (length (sessions w))} else gain_outputs w)"
proof (cases "negotiated p")
  case True
  then show ?thesis
    by (simp add: enableChromeAEC_def Let_def negotiation_negotiated foldl_perform_settles_at
        foldl_perform_no_gain settles_at_def outbound_local_def create_session_def)
next
  case False
  from negotiation_not_negotiated [OF this]
  show ?thesis
    using False
    by (simp add: enableChromeAEC_def Let_def foldl_perform_no_gain create_session_def)
qed

lemma aec_inv_initial: "aec_inv aec_initial"
  by (simp add: aec_inv_def aec_initial_def)

lemma live_new_session:
  "live \<lparr> loopbackDestination = d, outbound_ice = a, inbound_ice = b,
          outbound_closed = False, inbound_closed = False \<rparr>"
  by (simp add: live_def)

lemma aec_inv_enableChromeAEC: "aec_inv w \<Longrightarrow> aec_inv (enableChromeAEC p w)"
  by (auto simp: aec_inv_def enableChromeAEC_fields live_new_session)

lemma clear_pending:
  assumes "aec_inv w" and "truthy (delayedReconnectTimeout w)"
  shows "timers (clearTimeout (the (delayedReconnectTimeout w)) w) = []"
  using assms by (auto simp: aec_inv_def clearTimeout_def)

lemma clearTimeout_fields:
  "delayedReconnectTimeout (clearTimeout h w) = delayedReconnectTimeout w"
  "next_handle (clearTimeout h w) = next_handle w"
  "sessions (clearTimeout h w) = sessions w"
  "gain_outputs (clearTimeout h w) = gain_outputs w"
  "trace (clearTimeout h w) = trace w"
  by (simp_all add: clearTimeout_def)

lemma not_truthy_no_timer:
  "aec_inv w \<Longrightarrow> \<not> truthy (delayedReconnectTimeout w) \<Longrightarrow> timers w = []"
  by (auto simp: aec_inv_def truthy_def)

lemma performDelayedReconnect_result:
  assumes "aec_inv w"
  shows "timers (performDelayedReconnect w) = [(next_handle w, 10000)]"
    and "delayedReconnectTimeout (performDelayedReconnect w) = Some (next_handle w)"
    and "next_handle (performDelayedReconnect w) = Suc (next_handle w)"
    and "sessions (performDelayedReconnect w) = sessions w"
    and "gain_outputs (performDelayedReconnect w) = gain_outputs w"
    and "trace (performDelayedReconnect w) = trace w"
proof -
  show "timers (performDelayedReconnect w) = [(next_handle w, 10000)]"
  proof (cases "truthy (delayedReconnectTimeout w)")
    case True
    with clear_pending [OF assms] show ?thesis
      by (simp add: performDelayedReconnect_def setTimeout_def clearTimeout_fields)
  next
    case False
    with not_truthy_no_timer [OF assms] show ?thesis
      by (simp add: performDelayedReconnect_def setTimeout_def)
  qed
qed (simp_all add: performDelayedReconnect_def setTimeout_def clearTimeout_fields Let_def)

lemma aec_inv_performDelayedReconnect:
  assumes "aec_inv w"
  shows "aec_inv (performDelayedReconnect w)"
  using assms performDelayedReconnect_result [OF assms]
  by (simp add: aec_inv_def)

lemma live_set_ice: "live (set_ice pc st x) = live x"
  by (cases pc) (simp_all add: set_ice_def live_def)

lemma set_update_live:
  assumes "\<forall>x \<in> set xs. live x" and "k < length xs"
  shows "\<forall>x \<in> set (xs[k := set_ice pc st (xs ! k)]). live x"
proof
  fix x assume "x \<in> set (xs[k := set_ice pc st (xs ! k)])"
  then have "x = set_ice pc st (xs ! k) \<or> x \<in> set xs"
    using set_update_subset_insert by fastforce
  with assms show "live x"
    by (auto simp: live_set_ice)
qed

lemma aec_inv_sessions_update:
  assumes "aec_inv w" and "k < length (sessions w)"
  shows "aec_inv (w\<lparr>sessions := (sessions w)[k := set_ice pc st (sessions w ! k)]\<rparr>)"
  using assms set_update_live [of "sessions w" k pc st]
  by (simp add: aec_inv_def)

lemma aec_inv_clear:
  assumes "aec_inv w" shows "aec_inv (clearTimeout h w)"
proof -
  from assms have "timers w = [] \<or> (\<exists>h'. h' \<noteq> 0 \<and> delayedReconnectTimeout w = Some h'
                     \<and> timers w = [(h', 10000)])"
    by (simp add: aec_inv_def)
  then have "timers (clearTimeout h w) = [] \<or> timers (clearTimeout h w) = timers w"
    by (auto simp: clearTimeout_def split: if_splits)
  with assms show ?thesis
    by (auto simp: aec_inv_def clearTimeout_fields)
qed

lemma aec_inv_ice: "aec_inv w \<Longrightarrow> aec_inv (iceconnectionstatechange k pc st w)"
  by (simp add: iceconnectionstatechange_def Let_def aec_inv_sessions_update
      aec_inv_performDelayedReconnect aec_inv_clear)

lemma fired_timers:
  assumes "aec_inv w" and "h \<in> fst ` set (timers w)"
  shows "filter (\<lambda>t. fst t \<noteq> h) (timers w) = []"
  using assms by (auto simp: aec_inv_def)

lemma aec_inv_fired:
  assumes "aec_inv w"
  shows "aec_inv (w\<lparr>timers := [], delayedReconnectTimeout := None\<rparr>)"
  using assms by (simp add: aec_inv_def)

lemma aec_inv_timer_fires: "aec_inv w \<Longrightarrow> aec_inv (timer_fires h p w)"
  by (simp add: timer_fires_def fired_timers aec_inv_fired aec_inv_enableChromeAEC)

lemma aec_inv_step: "aec_inv w \<Longrightarrow> aec_inv (aec_step w i)"
  by (cases i) (simp_all add: aec_inv_enableChromeAEC aec_inv_ice aec_inv_timer_fires)

lemma aec_inv_foldl: "aec_inv w \<Longrightarrow> aec_inv (foldl aec_step w ins)"
  by (induction ins arbitrary: w) (simp_all add: aec_inv_step)

lemma aec_inv_run: "aec_inv (aec_run ins)"
  by (simp add: aec_run_def aec_inv_foldl aec_inv_initial)

lemma negotiated_all_succeed: "negotiated (all_succeed pt)"
  by (simp add: negotiated_def all_succeed_def)

lemma negotiated_outbound_local_rejected: "negotiated outbound_local_rejected"
  by (simp add: negotiated_def all_succeed_def outbound_local_rejected_def)

lemma initial_fields:
  "sessions aec_initial = []" "trace aec_initial = []" "gain_outputs aec_initial = {Destination}"
  "timers aec_initial = []" "next_handle aec_initial = 1"
  "delayedReconnectTimeout aec_initial = None"
  by (simp_all add: aec_initial_def)

text \<open>
  C1, at the failing input. Every step succeeds except the setting of the local description on
  the outbound connection, which is rejected. The promise is not awaited, so the \<open>catch\<close>
  block does not run, and the final mix gain node, connected to the real destination before,
  ends connected to the loopback sink only: a negotiation step failed and the live graph was
  changed all the same.
\<close>

theorem enableChromeAEC_reroutes_after_rejected_description:
  "Settled (SetLocalDescription Outbound) Rejected
     \<in> set (trace (enableChromeAEC outbound_local_rejected aec_initial))
   \<and> OnError \<notin> set (trace (enableChromeAEC outbound_local_rejected aec_initial))
   \<and> gain_outputs aec_initial = {Destination}
   \<and> gain_outputs (enableChromeAEC outbound_local_rejected aec_initial) = {LoopbackDestination 0}"
  by (simp add: enableChromeAEC_fields enableChromeAEC_gain_outputs initial_fields
      negotiated_outbound_local_rejected negotiation_negotiated settles_at_def outbound_local_def)
     (simp add: outbound_local_rejected_def all_succeed_def)

lemma enableChromeAEC_failure_untouched:
  assumes "\<not> addTrack_ok p \<or> createOffer_result p = Rejected
           \<or> setRemoteDescription_result p Inbound = Rejected
           \<or> createAnswer_result p = Rejected \<or> \<not> rewriteSdp_ok p"
  shows "gain_outputs (enableChromeAEC p w) = gain_outputs w"
  using assms by (auto simp: enableChromeAEC_gain_outputs negotiated_def)

lemma all_succeed_fields:
  "setLocalDescription_result (all_succeed pt) pc = Fulfilled"
  "setRemoteDescription_result (all_succeed pt) pc = Fulfilled"
  "outbound_local_settles (all_succeed pt) = pt"
  by (simp_all add: all_succeed_def)

text \<open>
  C2, at the failing input. In an activation in which every step succeeds, whenever the promise
  that is not awaited settles, the gain node is disconnected from the real destination and
  connected to the loopback sink before the local description of the inbound connection and
  the remote description of the outbound connection have been set: both calls are made on lines
  111-112 without \<open>await\<close>, and lines 114-115 follow in the same synchronous stretch.
\<close>

theorem reroute_precedes_description_completion:
  "precedes GainDisconnect (Settled (SetLocalDescription Inbound) Fulfilled)
     (trace (enableChromeAEC (all_succeed pt) aec_initial))
   \<and> precedes (GainConnect (LoopbackDestination 0)) (Settled (SetLocalDescription Inbound) Fulfilled)
     (trace (enableChromeAEC (all_succeed pt) aec_initial))
   \<and> precedes GainDisconnect (Settled (SetRemoteDescription Outbound) Fulfilled)
     (trace (enableChromeAEC (all_succeed pt) aec_initial))
   \<and> precedes (GainConnect (LoopbackDestination 0)) (Settled (SetRemoteDescription Outbound) Fulfilled)
     (trace (enableChromeAEC (all_succeed pt) aec_initial))
   \<and> gain_outputs (enableChromeAEC (all_succeed pt) aec_initial) = {LoopbackDestination 0}"
  by (cases pt)
     (simp_all add: precedes_def enableChromeAEC_fields enableChromeAEC_gain_outputs
        initial_fields negotiated_all_succeed negotiation_negotiated settles_at_def
        outbound_local_def all_succeed_fields)

lemma ice_disconnected:
  assumes "aec_inv w" and "k < length (sessions w)"
  shows "timers (iceconnectionstatechange k pc Disconnected w) = [(next_handle w, 10000)]"
    and "delayedReconnectTimeout (iceconnectionstatechange k pc Disconnected w)
           = Some (next_handle w)"
    and "length (sessions (iceconnectionstatechange k pc Disconnected w)) = length (sessions w)"
proof -
  define w1 where "w1 = w\<lparr>sessions := (sessions w)[k := set_ice pc Disconnected (sessions w ! k)]\<rparr>"
  have i1: "aec_inv w1"
    unfolding w1_def using assms by (rule aec_inv_sessions_update)
  have e: "iceconnectionstatechange k pc Disconnected w = performDelayedReconnect w1"
    using assms(2) by (simp add: iceconnectionstatechange_def Let_def w1_def)
  have n: "next_handle w1 = next_handle w" and l: "length (sessions w1) = length (sessions w)"
    by (simp_all add: w1_def)
  show "timers (iceconnectionstatechange k pc Disconnected w) = [(next_handle w, 10000)]"
    by (simp add: e performDelayedReconnect_result [OF i1] n)
  show "delayedReconnectTimeout (iceconnectionstatechange k pc Disconnected w)
           = Some (next_handle w)"
    by (simp add: e performDelayedReconnect_result [OF i1] n)
  show "length (sessions (iceconnectionstatechange k pc Disconnected w)) = length (sessions w)"
    by (simp add: e performDelayedReconnect_result [OF i1] l)
qed

lemma ice_connected:
  assumes "aec_inv w" and "k < length (sessions w)"
  shows "timers (iceconnectionstatechange k pc Connected w) = []"
    and "length (sessions (iceconnectionstatechange k pc Connected w)) = length (sessions w)"
proof -
  define w1 where "w1 = w\<lparr>sessions := (sessions w)[k := set_ice pc Connected (sessions w ! k)]\<rparr>"
  have i1: "aec_inv w1"
    unfolding w1_def using assms by (rule aec_inv_sessions_update)
  have e: "iceconnectionstatechange k pc Connected w =
             (if truthy (delayedReconnectTimeout w1)
              then clearTimeout (the (delayedReconnectTimeout w1)) w1 else w1)"
    using assms(2) by (simp add: iceconnectionstatechange_def Let_def w1_def)
  have l: "length (sessions w1) = length (sessions w)"
    by (simp add: w1_def)
  show "timers (iceconnectionstatechange k pc Connected w) = []"
    using clear_pending [OF i1] not_truthy_no_timer [OF i1] by (simp add: e)
  show "length (sessions (iceconnectionstatechange k pc Connected w)) = length (sessions w)"
    by (simp add: e clearTimeout_fields l)
qed

lemma handle_fresh: "aec_inv w \<Longrightarrow> next_handle w \<notin> fst ` set (timers w)"
  by (auto simp: aec_inv_def)

lemma no_timer_no_fire: "timers w = [] \<Longrightarrow> timer_fires h p w = w"
  by (simp add: timer_fires_def)

text \<open>
  C4. After any history of activations, state changes and timeouts, for a session that exists
  and either of its connections: when the connection reports \<open>disconnected\<close>, exactly one
  reconnect timeout is scheduled afterwards, with a delay of 10000 ms and a handle that was not
  scheduled before (whatever was pending is gone), the variable holds it and no session is
  added; when it reports \<open>connected\<close>, no timeout is scheduled afterwards, no session is
  added, and no timeout can fire.
\<close>

theorem ice_reconnect_timer:
  assumes "k < length (sessions (aec_run ins))"
  shows "let w = aec_run ins;
             wd = aec_step w (IceChange k pc Disconnected);
             wc = aec_step w (IceChange k pc Connected)
         in timers wd = [(next_handle w, 10000)]
          \<and> delayedReconnectTimeout wd = Some (next_handle w)
          \<and> next_handle w \<notin> fst ` set (timers w)
          \<and> length (sessions wd) = length (sessions w)
          \<and> timers wc = []
          \<and> length (sessions wc) = length (sessions w)
          \<and> (\<forall>h p. aec_step wc (TimerFires h p) = wc)"
  using ice_disconnected [OF aec_inv_run assms] ice_connected [OF aec_inv_run assms]
    handle_fresh [OF aec_inv_run]
  by (simp add: Let_def no_timer_no_fire)

lemma live_sessions_inv: "aec_inv w \<Longrightarrow> live_sessions w = sessions w"
  by (simp add: live_sessions_def aec_inv_def)

lemma timers_at_most_one: "aec_inv w \<Longrightarrow> length (timers w) \<le> 1"
  by (auto simp: aec_inv_def)

lemma timer_fires_result:
  assumes "aec_inv w" and "h \<in> fst ` set (timers w)"
  shows "timers (timer_fires h p w) = []"
    and "delayedReconnectTimeout (timer_fires h p w) = None"
    and "sessions (timer_fires h p w) = sessions w @
           [\<lparr> loopbackDestination = LoopbackDestination (length (sessions w)),
              outbound_ice = IceNew, inbound_ice = IceNew,
              outbound_closed = False, inbound_closed = False \<rparr>]"
  using assms(2) fired_timers [OF assms]
  by (simp_all add: timer_fires_def enableChromeAEC_fields)

lemma one_sink_initial: "one_sink aec_initial"
  by (simp add: one_sink_def aec_initial_def)

lemma one_sink_enableChromeAEC:
  assumes "one_sink w"
  shows "one_sink (enableChromeAEC p w)"
proof (cases "negotiated p")
  case True
  then show ?thesis
    by (auto simp: one_sink_def enableChromeAEC_gain_outputs enableChromeAEC_fields)
next
  case False
  have "n < length (sessions w) \<Longrightarrow> n < Suc (length (sessions w))" for n by simp
  with assms False show ?thesis
    by (auto simp: one_sink_def enableChromeAEC_gain_outputs enableChromeAEC_fields)
qed

lemma performDelayedReconnect_graph:
  "gain_outputs (performDelayedReconnect w) = gain_outputs w"
  "sessions (performDelayedReconnect w) = sessions w"
  by (simp_all add: performDelayedReconnect_def setTimeout_def clearTimeout_fields Let_def)

lemma ice_graph:
  "gain_outputs (iceconnectionstatechange k pc st w) = gain_outputs w"
  "length (sessions (iceconnectionstatechange k pc st w)) = length (sessions w)"
  by (simp_all add: iceconnectionstatechange_def Let_def performDelayedReconnect_graph
      clearTimeout_fields)

lemma one_sink_ice: "one_sink w \<Longrightarrow> one_sink (iceconnectionstatechange k pc st w)"
  by (simp add: one_sink_def ice_graph)

lemma one_sink_timer_fires:
  assumes "one_sink w"
  shows "one_sink (timer_fires h p w)"
proof -
  from assms
  have "one_sink (w\<lparr>timers := filter (\<lambda>t. fst t \<noteq> h) (timers w), delayedReconnectTimeout := None\<rparr>)"
    by (simp add: one_sink_def)
  with assms show ?thesis
    by (simp add: timer_fires_def one_sink_enableChromeAEC)
qed

lemma one_sink_step: "one_sink w \<Longrightarrow> one_sink (aec_step w i)"
  by (cases i) (simp_all add: one_sink_enableChromeAEC one_sink_ice one_sink_timer_fires)

lemma one_sink_foldl: "one_sink w \<Longrightarrow> one_sink (foldl aec_step w ins)"
  by (induction ins arbitrary: w) (simp_all add: one_sink_step)

lemma one_sink_run: "one_sink (aec_run ins)"
  by (simp add: aec_run_def one_sink_foldl one_sink_initial)

text \<open>
  C3, as the code has it. After any history, at most one reconnect timeout is scheduled, no
  session has been torn down (every session ever created is live), and the final mix gain node
  feeds exactly one sink, the real destination or the loopback sink of one session. When a
  scheduled timeout fires, no timeout is left, the variable is \<open>null\<close>, and exactly one new
  session is added after the old ones, which stay as they were.
\<close>

theorem one_pending_timer:
  "let w = aec_run ins
   in length (timers w) \<le> 1
    \<and> live_sessions w = sessions w
    \<and> (gain_outputs w = {Destination}
         \<or> (\<exists>n < length (sessions w). gain_outputs w = {LoopbackDestination n}))
    \<and> (\<forall>h p. h \<in> fst ` set (timers w) \<longrightarrow>
          (let w' = aec_step w (TimerFires h p)
           in timers w' = [] \<and> delayedReconnectTimeout w' = None
            \<and> sessions w' = sessions w @
                 [\<lparr> loopbackDestination = LoopbackDestination (length (sessions w)),
                    outbound_ice = IceNew, inbound_ice = IceNew,
                    outbound_closed = False, inbound_closed = False \<rparr>]
            \<and> live_sessions w' = sessions w'))"
proof -
  have i: "aec_inv (aec_run ins)" by (rule aec_inv_run)
  have "live_sessions (timer_fires h p (aec_run ins)) = sessions (timer_fires h p (aec_run ins))"
    for h p
    by (rule live_sessions_inv) (rule aec_inv_timer_fires [OF i])
  then show ?thesis
    using timers_at_most_one [OF i] live_sessions_inv [OF i] timer_fires_result [OF i]
      one_sink_run [of ins]
    by (simp add: Let_def one_sink_def)
qed

lemma run_snoc: "aec_run (ins @ [i]) = aec_step (aec_run ins) i"
  by (simp add: aec_run_def)

lemma run_activate:
  "aec_run [Activate p] = enableChromeAEC p aec_initial"
  by (simp add: aec_run_def)

lemma activated_fields:
  "length (sessions (aec_run [Activate p])) = 1"
  "next_handle (aec_run [Activate p]) = 1"
  "timers (aec_run [Activate p]) = []"
  by (simp_all add: run_activate enableChromeAEC_fields initial_fields)

lemma disconnected_once_eq:
  "aec_run disconnected_once =
     aec_step (aec_run [Activate (all_succeed AfterReturn)]) (IceChange 0 Inbound Disconnected)"
  using run_snoc [of "[Activate (all_succeed AfterReturn)]" "IceChange 0 Inbound Disconnected"]
  by (simp add: disconnected_once_def)

lemma disconnected_once_fields:
  "timers (aec_run disconnected_once) = [(1, 10000)]"
  "length (sessions (aec_run disconnected_once)) = 1"
  using ice_disconnected [OF aec_inv_run, of 0 "[Activate (all_succeed AfterReturn)]" Inbound]
  by (simp_all add: disconnected_once_eq activated_fields)

theorem ice_reconnect_timer_witness:
  "0 < length (sessions (aec_run [Activate (all_succeed AfterReturn)]))
   \<and> timers (aec_run disconnected_once) = [(1, 10000)]
   \<and> timers (aec_step (aec_run disconnected_once) (IceChange 0 Outbound Connected)) = []
   \<and> length (sessions (aec_step (aec_run disconnected_once) (IceChange 0 Outbound Connected))) = 1"
proof -
  have a: "0 < length (sessions (aec_run [Activate (all_succeed AfterReturn)]))"
    by (simp add: activated_fields)
  have b: "0 < length (sessions (aec_run disconnected_once))"
    by (simp add: disconnected_once_fields)
  from a ice_reconnect_timer [OF a, of Inbound] ice_reconnect_timer [OF b, of Outbound]
  show ?thesis
    by (simp add: Let_def disconnected_once_eq [symmetric] disconnected_once_fields activated_fields)
qed

theorem one_pending_timer_witness:
  "1 \<in> fst ` set (timers (aec_run disconnected_once))
   \<and> length (sessions (aec_step (aec_run disconnected_once) (TimerFires 1 (all_succeed AfterReturn)))) = 2
   \<and> timers (aec_step (aec_run disconnected_once) (TimerFires 1 (all_succeed AfterReturn))) = []"
  using one_pending_timer [of disconnected_once]
  by (simp add: Let_def disconnected_once_fields)

text \<open>
  C3 fails as stated: one activation, a \<open>disconnected\<close> report and the firing of the timeout
  leave two live sessions. \<open>close()\<close> is called on no peer connection anywhere in the file.
\<close>

theorem reconnect_keeps_old_session_live:
  "\<not> length (live_sessions
      (aec_run (disconnected_once @ [TimerFires 1 (all_succeed AfterReturn)]))) \<le> 1"
proof -
  have i: "aec_inv (aec_run disconnected_once)" by (rule aec_inv_run)
  have h: "1 \<in> fst ` set (timers (aec_run disconnected_once))"
    by (simp add: disconnected_once_fields)
  have "length (sessions (timer_fires 1 (all_succeed AfterReturn) (aec_run disconnected_once)))
          = Suc (length (sessions (aec_run disconnected_once)))"
    by (simp only: timer_fires_result(3) [OF i h] length_append_singleton)
  then show ?thesis
    using live_sessions_inv [OF aec_inv_timer_fires [OF i], of 1 "all_succeed AfterReturn"]
    by (simp add: run_snoc disconnected_once_fields)
qed

end
